theory Spec2Isabelle
  imports Complex_Main "HOL-Library.Monad_Syntax"
begin

section \<open>REINFORCE with baseline for a one-asset investment problem\<close>

text \<open>
  A shallow embedding of \<^verbatim>\<open>REINFORCE_BASELINE_PolicyNet5_proof.py\<close>.
  Python lists are HOL lists, an index read that Python would refuse is the value
  \<open>Inl IndexError\<close>, loops are recursive functions over the list of indices that
  \<^verbatim>\<open>range\<close> produces, and the mutable agent object is a record that every method
  takes and returns.
\<close>

subsection \<open>Module constants (lines 23-38)\<close>

text \<open>
  The constants as exact real numbers. The numbers the machine computes for them, in
  binary64, follow in the next subsection; the transition \<^verbatim>\<open>wealth\<close> and the activation
  \<^verbatim>\<open>softplus\<close> are modelled with the machine's rounding.
\<close>

definition dt :: real where "dt = 1 / 52"
definition T :: real where "T = 2 * dt"
definition x_0 :: real where "x_0 = 1"
definition N :: nat where "N = nat \<lfloor>T / dt\<rfloor>"
definition EPOCHS :: nat where "EPOCHS = 5000"

definition mu :: real where "mu = 1 / 10"
definition sigma :: real where "sigma = 1 / 10"
definition r :: real where "r = 2 / 100"
definition rho :: real where "rho = (mu - r) / sigma"
definition lam :: real where "lam = 1 / 1000"
definition gamma :: real where "gamma = 1 / 2"

subsection \<open>The constants as the machine computes them\<close>

text \<open>
  Python's \<^verbatim>\<open>float\<close> is IEEE 754 binary64. A finite double is a rational number;
  \<open>fl q\<close> is the double nearest to \<open>q\<close>, ties going to the even significand, with the
  exponent held at \<open>-1022\<close> for subnormal results, and \<open>None\<close> when the rounded value is
  beyond the largest double (Python's \<^verbatim>\<open>inf\<close>). A literal is rounded once; \<^verbatim>\<open>+\<close>,
  \<^verbatim>\<open>-\<close>, \<^verbatim>\<open>*\<close> and \<^verbatim>\<open>/\<close> round the exact result once, and \<^verbatim>\<open>/\<close> by zero raises
  (\<open>None\<close> as well). \<open>norm_exp\<close> finds the binary exponent of a positive number; its fuel
  covers every exponent a double can have.
\<close>

definition pow2 :: "int \<Rightarrow> rat" where
  "pow2 e = (if 0 \<le> e then 2 ^ nat e else 1 / 2 ^ nat (- e))"

definition round_half_even :: "rat \<Rightarrow> int" where
  "round_half_even q =
     (let f = \<lfloor>q\<rfloor>; d = q - of_int f
      in if d < 1 / 2 then f else if 1 / 2 < d then f + 1 else if even f then f else f + 1)"

fun norm_exp :: "nat \<Rightarrow> rat \<Rightarrow> int \<Rightarrow> int" where
  "norm_exp 0 q e = e"
| "norm_exp (Suc k) q e =
     (if 2 \<le> q then norm_exp k (q / 2) (e + 1)
      else if q < 1 then norm_exp k (q * 2) (e - 1)
      else e)"

definition fl :: "rat \<Rightarrow> rat option" where
  "fl q =
     (if q = 0 then Some 0
      else
        (let e = max (norm_exp 1100 \<bar>q\<bar> 0) (- 1022);
             m = round_half_even (q * pow2 (52 - e));
             v = of_int m * pow2 (e - 52)
         in if \<bar>v\<bar> < pow2 1024 then Some v else None))"

definition f64_add :: "rat \<Rightarrow> rat \<Rightarrow> rat option" where
  "f64_add a b = fl (a + b)"

definition f64_sub :: "rat \<Rightarrow> rat \<Rightarrow> rat option" where
  "f64_sub a b = fl (a - b)"

definition f64_mul :: "rat \<Rightarrow> rat \<Rightarrow> rat option" where
  "f64_mul a b = fl (a * b)"

definition f64_div :: "rat \<Rightarrow> rat \<Rightarrow> rat option" where
  "f64_div a b = (if b = 0 then None else fl (a / b))"

text \<open>Lines 23-38 and \<^verbatim>\<open>true_mean\<close> (lines 207-210), evaluated in binary64.\<close>

definition mu64 :: "rat option" where "mu64 = fl (1 / 10)"
definition sigma64 :: "rat option" where "sigma64 = fl (1 / 10)"
definition r64 :: "rat option" where "r64 = fl (2 / 100)"
definition gamma64 :: "rat option" where "gamma64 = fl (5 / 10)"

definition rho64 :: "rat option" where
  "rho64 = do { m \<leftarrow> mu64; rr \<leftarrow> r64; s \<leftarrow> sigma64; d \<leftarrow> f64_sub m rr; f64_div d s }"

definition true_mean64 :: "rat \<Rightarrow> rat option" where
  "true_mean64 x =
     do { rh \<leftarrow> rho64; s \<leftarrow> sigma64; g \<leftarrow> gamma64;
          num \<leftarrow> f64_mul rh x; c \<leftarrow> f64_sub 1 g; den \<leftarrow> f64_mul s c;
          f64_div num den }"

definition dt64 :: "rat option" where "dt64 = f64_div 1 52"
definition T64 :: "rat option" where "T64 = do { d \<leftarrow> dt64; f64_mul 2 d }"
definition N64 :: "nat option" where
  "N64 = do { t \<leftarrow> T64; d \<leftarrow> dt64; q \<leftarrow> f64_div t d; Some (nat \<lfloor>q\<rfloor>) }"

subsection \<open>Failures\<close>

text \<open>
  \<open>IndexError\<close>, \<open>NameError\<close> and \<open>ValueError\<close> are Python's. \<open>NotReal\<close> stands for a
  negative base under the fractional power of \<^verbatim>\<open>util\<close>, where Python has no real result
  (nan or a complex number), and \<open>NotFinite\<close> for a wealth beyond the largest double
  (\<^verbatim>\<open>inf\<close>, and \<^verbatim>\<open>nan\<close> after it): the model follows a run no further than that.
\<close>

datatype failure = IndexError | NameError | ValueError | NotReal | NotFinite

definition py_get :: "'a list \<Rightarrow> nat \<Rightarrow> failure + 'a" where
  "py_get xs i = (if i < length xs then Inr (xs ! i) else Inl IndexError)"

subsection \<open>Rounding of real results\<close>

text \<open>
  The same rounding to the nearest float, ties to the even significand, on real numbers:
  \<open>rnd p emin\<close> keeps \<open>p\<close> bits after the leading one and holds the exponent at
  \<open>emin\<close> for subnormal results, so a result below half the smallest subnormal is 0.
  \<open>rn64\<close> is binary64 and \<open>rn32\<close> is binary32, the type of torch's tensors here;
  \<open>fl64\<close> is \<open>None\<close> beyond the largest double. \<^verbatim>\<open>np.sqrt\<close>, and the \<^verbatim>\<open>exp\<close> and
  \<^verbatim>\<open>log1p\<close> of torch's \<^verbatim>\<open>softplus\<close>, are the rounded exact functions.
\<close>

definition p2 :: "int \<Rightarrow> real" where
  "p2 e = (if 0 \<le> e then 2 ^ nat e else 1 / 2 ^ nat (- e))"

definition round_half_even_real :: "real \<Rightarrow> int" where
  "round_half_even_real q =
     (let f = \<lfloor>q\<rfloor>; d = q - of_int f
      in if d < 1 / 2 then f else if 1 / 2 < d then f + 1 else if even f then f else f + 1)"

fun norm_exp_real :: "nat \<Rightarrow> real \<Rightarrow> int \<Rightarrow> int" where
  "norm_exp_real 0 q e = e"
| "norm_exp_real (Suc k) q e =
     (if 2 \<le> q then norm_exp_real k (q / 2) (e + 1)
      else if q < 1 then norm_exp_real k (q * 2) (e - 1)
      else e)"

definition rnd :: "int \<Rightarrow> int \<Rightarrow> real \<Rightarrow> real" where
  "rnd p emin q =
     (if q = 0 then 0
      else
        (let e = max (norm_exp_real 1100 \<bar>q\<bar> 0) emin;
             m = round_half_even_real (q * p2 (p - e))
         in of_int m * p2 (e - p)))"

definition rn64 :: "real \<Rightarrow> real" where
  "rn64 = rnd 52 (- 1022)"

definition rn32 :: "real \<Rightarrow> real" where
  "rn32 = rnd 23 (- 126)"

definition fl64 :: "real \<Rightarrow> real option" where
  "fl64 q = (let v = rn64 q in if \<bar>v\<bar> < p2 1024 then Some v else None)"

definition np_sqrt :: "real \<Rightarrow> real" where
  "np_sqrt x = rn64 (sqrt x)"

definition exp32 :: "real \<Rightarrow> real" where
  "exp32 x = rn32 (exp x)"

definition log1p32 :: "real \<Rightarrow> real" where
  "log1p32 y = rn32 (ln (1 + y))"

subsection \<open>Tensors and the library functions the program calls\<close>

text \<open>
  A one-element tensor is its number (\<^verbatim>\<open>.item()\<close>) together with its derivative along
  one fixed direction of the networks' parameters, which is what \<^verbatim>\<open>backward()\<close>
  accumulates for that direction. A tensor built from a plain number has derivative 0.
\<close>

record tensor =
  item :: real
  grad :: real

definition Tensor :: "real \<Rightarrow> tensor" where
  "Tensor c = \<lparr>item = c, grad = 0\<rparr>"

text \<open>\<^verbatim>\<open>c * t\<close> for a Python number \<open>c\<close>, and \<^verbatim>\<open>t + u\<close>.\<close>

definition scale :: "real \<Rightarrow> tensor \<Rightarrow> tensor" where
  "scale c t = \<lparr>item = c * item t, grad = c * grad t\<rparr>"

definition tadd :: "tensor \<Rightarrow> tensor \<Rightarrow> tensor" where
  "tadd t u = \<lparr>item = item t + item u, grad = grad t + grad u\<rparr>"

text \<open>
  \<^verbatim>\<open>F.softplus\<close> with its defaults (beta 1, threshold 20): above the threshold the
  input itself, otherwise \<^verbatim>\<open>log1p(exp(x))\<close> in binary32.
\<close>

definition softplus :: "tensor \<Rightarrow> tensor" where
  "softplus t =
     (if item t > 20 then t
      else \<lparr>item = log1p32 (exp32 (item t)),
            grad = grad t * (exp (item t) / (exp (item t) + 1))\<rparr>)"

text \<open>
  \<^verbatim>\<open>torch.distributions.normal.Normal(loc, scale)\<close>: the constructor raises
  \<^verbatim>\<open>ValueError\<close> for a scale that is not positive (that check is in \<open>choose_action\<close>
  below); \<^verbatim>\<open>sample()\<close> from one standard normal draw (no derivative),
  \<^verbatim>\<open>log_prob(value)\<close> and \<^verbatim>\<open>entropy()\<close>.
\<close>

definition Normal_sample :: "tensor \<Rightarrow> tensor \<Rightarrow> real \<Rightarrow> real" where
  "Normal_sample loc scl eps = item loc + item scl * eps"

definition Normal_log_prob :: "tensor \<Rightarrow> tensor \<Rightarrow> real \<Rightarrow> tensor" where
  "Normal_log_prob loc scl v =
     \<lparr>item = - ((v - item loc)\<^sup>2) / (2 * (item scl)\<^sup>2) - ln (item scl) - ln (sqrt (2 * pi)),
      grad = ((v - item loc) / (item scl)\<^sup>2) * grad loc
             + ((v - item loc)\<^sup>2 / (item scl) ^ 3 - 1 / item scl) * grad scl\<rparr>"

definition Normal_entropy :: "tensor \<Rightarrow> tensor \<Rightarrow> tensor" where
  "Normal_entropy loc scl =
     \<lparr>item = 1 / 2 + 1 / 2 * ln (2 * pi) + ln (item scl),
      grad = grad scl / item scl\<rparr>"

subsection \<open>The pseudo-random generators\<close>

text \<open>
  The two seeded generators (numpy's and torch's, lines 20-21) are the sequences of
  standard draws they hand out, call after call; the state of a generator is the number
  of draws taken so far.
\<close>

record seed =
  np_seq :: "nat \<Rightarrow> real"
  torch_seq :: "nat \<Rightarrow> real"

record rng =
  np_pos :: nat
  torch_pos :: nat

definition np_random_uniform :: "seed \<Rightarrow> real \<Rightarrow> real \<Rightarrow> rng \<Rightarrow> real \<times> rng" where
  "np_random_uniform S low high g =
     (low + (high - low) * np_seq S (np_pos g), g\<lparr>np_pos := Suc (np_pos g)\<rparr>)"

definition np_random_randn :: "seed \<Rightarrow> rng \<Rightarrow> real \<times> rng" where
  "np_random_randn S g = (np_seq S (np_pos g), g\<lparr>np_pos := Suc (np_pos g)\<rparr>)"

definition torch_randn :: "seed \<Rightarrow> rng \<Rightarrow> real \<times> rng" where
  "torch_randn S g = (torch_seq S (torch_pos g), g\<lparr>torch_pos := Suc (torch_pos g)\<rparr>)"

subsection \<open>The two networks (lines 41-94)\<close>

text \<open>
  The affine layers, their hidden activations and the optimizers are the external
  function approximator: a network is a parameter vector, and the record below holds
  what the library computes from it. \<open>policy_layers\<close> is \<^verbatim>\<open>fc3\<close> after the two hidden
  layers, as the pair of slices \<^verbatim>\<open>x[:,0]\<close> and \<^verbatim>\<open>x[:,1]\<close>; \<open>value_layers\<close> is the whole
  forward pass of the value network; \<open>value_step\<close> and \<open>policy_step\<close> are
  \<^verbatim>\<open>backward()\<close> on the loss followed by the optimizer's step (the parameter vector
  includes the optimizer's own state).
\<close>

type_synonym params = "real list"

record approximators =
  value_layers :: "params \<Rightarrow> real list \<Rightarrow> tensor"
  policy_layers :: "params \<Rightarrow> real list \<Rightarrow> tensor \<times> tensor"
  value_step :: "params \<Rightarrow> tensor \<Rightarrow> params"
  policy_step :: "params \<Rightarrow> tensor \<Rightarrow> params"

definition PolicyNetwork_forward :: "approximators \<Rightarrow> params \<Rightarrow> real list \<Rightarrow> tensor \<times> tensor" where
  "PolicyNetwork_forward M p observation =
     (let (first_slice, second_slice) = policy_layers M p observation
      in (first_slice, softplus second_slice))"

definition ValueFuncNetwork_forward :: "approximators \<Rightarrow> params \<Rightarrow> real list \<Rightarrow> tensor" where
  "ValueFuncNetwork_forward M p observation = value_layers M p observation"

subsection \<open>The agent (lines 96-140)\<close>

text \<open>
  The attributes \<^verbatim>\<open>mean\<close>, \<^verbatim>\<open>sd\<close>, \<^verbatim>\<open>reward\<close> and \<^verbatim>\<open>score\<close> are created by
  \<^verbatim>\<open>choose_action\<close> and \<^verbatim>\<open>learn\<close>; the record has them from the start.
  \<^verbatim>\<open>self.gamma\<close> is never read and is left out.
\<close>

record agent =
  reward_memory :: "real list"
  action_memory :: "tensor list"
  value_memory :: "tensor list"
  mean_memory :: "real list"
  sd_memory :: "real list"
  value_params :: params
  policy_params :: params
  mean :: tensor
  sd :: tensor
  reward :: real
  score :: real

text \<open>
  The call returns the action or raises; either way the agent it leaves behind and the
  generator are part of the result.
\<close>

definition choose_action ::
  "approximators \<Rightarrow> seed \<Rightarrow> agent \<Rightarrow> rng \<Rightarrow> real \<Rightarrow> real \<Rightarrow> (failure + real) \<times> agent \<times> rng" where
  "choose_action M S a g current_wealth t =
     (let state = [current_wealth, T - t];
          (mean', sd') = PolicyNetwork_forward M (policy_params a) state;
          a1 = a\<lparr>mean := mean', sd := sd'\<rparr>
      in if item sd' > 0 then
           (let (eps, g') = torch_randn S g;
                action = Normal_sample mean' sd' eps;
                log_probs = Normal_log_prob mean' sd' action
            in (Inr action,
                a1\<lparr>action_memory := action_memory a1 @ [log_probs],
                   reward := lam * item (Normal_entropy mean' sd')\<rparr>,
                g'))
         else (Inl ValueError, a1, g))"

definition get_value :: "approximators \<Rightarrow> agent \<Rightarrow> real \<Rightarrow> real \<Rightarrow> tensor" where
  "get_value M a current_wealth t =
     (let state = [current_wealth, T - t]
      in ValueFuncNetwork_forward M (value_params a) state)"

definition store_value :: "agent \<Rightarrow> tensor \<Rightarrow> agent" where
  "store_value a v = a\<lparr>value_memory := value_memory a @ [v]\<rparr>"

definition store_rewards :: "agent \<Rightarrow> real \<Rightarrow> agent" where
  "store_rewards a x = a\<lparr>reward_memory := reward_memory a @ [x]\<rparr>"

definition store_means :: "agent \<Rightarrow> real \<Rightarrow> agent" where
  "store_means a x = a\<lparr>mean_memory := mean_memory a @ [x]\<rparr>"

definition store_sds :: "agent \<Rightarrow> real \<Rightarrow> agent" where
  "store_sds a x = a\<lparr>sd_memory := sd_memory a @ [x]\<rparr>"

subsection \<open>Agent.learn: the accumulated rewards (lines 151-155)\<close>

text \<open>
  \<^verbatim>\<open>
  for j in range(N):
      R = 0
      for k in range(j,N):
          R += self.reward_memory[k+1]
      G.append(R)
  \<close>
  The element type only needs a zero and an addition: no law of arithmetic is used, so
  the loop is the same for exact numbers and for machine floats.
\<close>

fun sum_rewards :: "'a::{zero,plus} list \<Rightarrow> nat list \<Rightarrow> 'a \<Rightarrow> failure + 'a" where
  "sum_rewards rm [] R = Inr R"
| "sum_rewards rm (k # ks) R =
     (case py_get rm (k + 1) of
        Inl e \<Rightarrow> Inl e
      | Inr x \<Rightarrow> sum_rewards rm ks (R + x))"

fun G_loop :: "'a::{zero,plus} list \<Rightarrow> nat \<Rightarrow> nat list \<Rightarrow> 'a list \<Rightarrow> failure + 'a list" where
  "G_loop rm n [] G = Inr G"
| "G_loop rm n (j # js) G =
     (case sum_rewards rm [j..<n] 0 of
        Inl e \<Rightarrow> Inl e
      | Inr R \<Rightarrow> G_loop rm n js (G @ [R]))"

definition learn_G :: "nat \<Rightarrow> 'a::{zero,plus} list \<Rightarrow> failure + 'a list" where
  "learn_G n rm = G_loop rm n [0..<n] []"

subsection \<open>Agent.learn: deltas, score and losses (lines 157-189)\<close>

text \<open>
  \<^verbatim>\<open>
  for j in range(N):
      deltas.append(G[j] - self.value_memory[j].item())
  \<close>
\<close>

fun deltas_loop :: "real list \<Rightarrow> tensor list \<Rightarrow> nat list \<Rightarrow> real list \<Rightarrow> failure + real list" where
  "deltas_loop G vm [] deltas = Inr deltas"
| "deltas_loop G vm (j # js) deltas =
     (case py_get G j of
        Inl e \<Rightarrow> Inl e
      | Inr Gj \<Rightarrow>
          (case py_get vm j of
             Inl e \<Rightarrow> Inl e
           | Inr v \<Rightarrow> deltas_loop G vm js (deltas @ [Gj - item v])))"

text \<open>
  \<^verbatim>\<open>
  val_loss = 0
  for d, vals in zip(deltas, self.value_memory):
      val_loss += -d*vals
  \<close>
  and the same loop for \<^verbatim>\<open>policy_loss\<close> over \<^verbatim>\<open>zip(deltas, self.action_memory)\<close>.
  The accumulator starts as the number 0; adding a tensor to it gives that tensor, which
  is what adding to the constant tensor 0 gives here.
\<close>

fun loss_loop :: "(real \<times> tensor) list \<Rightarrow> tensor \<Rightarrow> tensor" where
  "loss_loop [] loss = loss"
| "loss_loop ((d, t) # ps) loss = loss_loop ps (tadd loss (scale (- d) t))"

text \<open>The local variables of \<^verbatim>\<open>learn\<close> when it reaches \<^verbatim>\<open>total_loss.backward()\<close>.\<close>

record learn_locals =
  G_var :: "real list"
  deltas_var :: "real list"
  score_var :: real
  val_loss :: tensor
  policy_loss :: tensor
  total_loss :: tensor

definition learn_losses :: "nat \<Rightarrow> agent \<Rightarrow> failure + learn_locals" where
  "learn_losses n a =
     (case learn_G n (reward_memory a) of
        Inl e \<Rightarrow> Inl e
      | Inr G \<Rightarrow>
          (case deltas_loop G (value_memory a) [0..<n] [] of
             Inl e \<Rightarrow> Inl e
           | Inr deltas \<Rightarrow>
               (case py_get G 0 of
                  Inl e \<Rightarrow> Inl e
                | Inr G0 \<Rightarrow>
                    (let vl = loss_loop (zip deltas (value_memory a)) (Tensor 0);
                         pl = loss_loop (zip deltas (action_memory a)) (Tensor 0)
                     in Inr \<lparr>G_var = G, deltas_var = deltas, score_var = G0, val_loss = vl,
                             policy_loss = pl, total_loss = tadd vl pl\<rparr>))))"

definition learn :: "approximators \<Rightarrow> nat \<Rightarrow> agent \<Rightarrow> failure + agent" where
  "learn M n a =
     (case learn_losses n a of
        Inl e \<Rightarrow> Inl e
      | Inr l \<Rightarrow>
          Inr (a\<lparr>score := score_var l,
                 value_params := value_step M (value_params a) (total_loss l),
                 policy_params := policy_step M (policy_params a) (total_loss l),
                 reward_memory := [], action_memory := [], value_memory := []\<rparr>))"

subsection \<open>The environment (lines 192-210)\<close>

text \<open>
  Line 194 in binary64, in Python's order of operations: \<^verbatim>\<open>sigma*sample\<close>, then
  \<^verbatim>\<open>rho*dt\<close>, \<^verbatim>\<open>np.sqrt(dt)*Z\<close> and their sum, then the product and the sum with \<open>x\<close>.
  \<open>None\<close> is a result that is not a finite double.
\<close>

definition wealth :: "seed \<Rightarrow> real \<Rightarrow> real \<Rightarrow> rng \<Rightarrow> real option \<times> rng" where
  "wealth S x sample g =
     (let (Z, g') = np_random_randn S g;
          x_new =
            do { sg \<leftarrow> map_option real_of_rat sigma64;
                 rh \<leftarrow> map_option real_of_rat rho64;
                 d \<leftarrow> map_option real_of_rat dt64;
                 a \<leftarrow> fl64 (sg * sample);
                 b \<leftarrow> fl64 (rh * d);
                 c \<leftarrow> fl64 (np_sqrt d * Z);
                 e \<leftarrow> fl64 (b + c);
                 f \<leftarrow> fl64 (a * e);
                 fl64 (x + f) }
      in (x_new, g'))"

definition util :: "real \<Rightarrow> real option" where
  "util x = (if x < 0 then None else Some (x powr gamma))"

definition true_mean :: "real \<Rightarrow> real" where
  "true_mean x = (rho * x) / (sigma * (1 - gamma))"

subsection \<open>The training loop (lines 240-271)\<close>

text \<open>
  The module-level variables the loop reads and writes. \<open>new_wealth\<close>, \<open>action\<close> and
  the loop variable \<open>i\<close> (here \<open>loop_i\<close>) are unbound until the first pass through the
  loop body; they keep their last value afterwards, as Python's do.
\<close>

record globals =
  the_agent :: agent
  the_rng :: rng
  episode_scores :: "real list"
  episode_values :: "real list"
  episode_wealths :: "real list"
  curr_wealth :: real
  new_wealth :: "real option"
  action_var :: "real option"
  loop_i :: "nat option"

text \<open>
  \<^verbatim>\<open>
  for k in range(N-1-i):
      agent.store_rewards(0)
      agent.store_value(torch.Tensor([0]))
  \<close>
\<close>

fun pad :: "nat list \<Rightarrow> agent \<Rightarrow> agent" where
  "pad [] a = a"
| "pad (k # ks) a = pad ks (store_value (store_rewards a 0) (Tensor 0))"

text \<open>
  One pass through the body of \<^verbatim>\<open>for i in range(N)\<close> (lines 247-267); the flag says
  whether the pass ended in \<^verbatim>\<open>break\<close>.
\<close>

definition loop_body ::
  "approximators \<Rightarrow> seed \<Rightarrow> nat \<Rightarrow> nat \<Rightarrow> globals \<Rightarrow> failure + globals \<times> bool" where
  "loop_body M S n i s =
     (let t = real i * dt;
          wealths = episode_wealths s @ [curr_wealth s];
          v = get_value M (the_agent s) (curr_wealth s) t;
          a1 = store_value (the_agent s) v
      in case choose_action M S a1 (the_rng s) (curr_wealth s) t of
           (Inl e, a2, g2) \<Rightarrow> Inl e
         | (Inr action, a2, g2) \<Rightarrow>
             (let a3 = store_rewards a2 (reward a2)
              in case wealth S (curr_wealth s) action g2 of
                   (None, g3) \<Rightarrow> Inl NotFinite
                 | (Some w, g3) \<Rightarrow>
                     (let a4 = (if i = 0
                                then store_means (store_sds a3 (item (sd a3))) (item (mean a3))
                                else a3);
                          values = (if i = 0 then episode_values s @ [item v]
                                    else episode_values s);
                          w' = (if w < 0 then 0 else w);
                          a5 = (if w' = 0 then pad [0..<n - 1 - i] a4 else a4)
                      in Inr (s\<lparr>the_agent := a5, the_rng := g3, episode_values := values,
                                episode_wealths := wealths, curr_wealth := w',
                                new_wealth := Some w', action_var := Some action,
                                loop_i := Some i\<rparr>,
                              w' = 0))))"

fun for_i :: "approximators \<Rightarrow> seed \<Rightarrow> nat \<Rightarrow> nat list \<Rightarrow> globals \<Rightarrow> failure + globals" where
  "for_i M S n [] s = Inr s"
| "for_i M S n (i # is) s =
     (case loop_body M S n i s of
        Inl e \<Rightarrow> Inl e
      | Inr (s', broke) \<Rightarrow> if broke then Inr s' else for_i M S n is s')"

text \<open>One episode up to the call of \<^verbatim>\<open>agent.learn()\<close> (lines 243-268).\<close>

definition rollout :: "approximators \<Rightarrow> seed \<Rightarrow> nat \<Rightarrow> globals \<Rightarrow> failure + globals" where
  "rollout M S n s =
     (let (w0, g1) = np_random_uniform S 0 (3 / 2) (the_rng s)
      in case for_i M S n [0..<n]
                (s\<lparr>episode_wealths := [], curr_wealth := w0, the_rng := g1\<rparr>) of
           Inl e \<Rightarrow> Inl e
         | Inr s1 \<Rightarrow>
             (case new_wealth s1 of
                None \<Rightarrow> Inl NameError
              | Some w \<Rightarrow>
                  (case util w of
                     None \<Rightarrow> Inl NotReal
                   | Some u \<Rightarrow> Inr (s1\<lparr>the_agent := store_rewards (the_agent s1) u\<rparr>))))"

text \<open>The body of \<^verbatim>\<open>for epoch in range(EPOCHS)\<close> (lines 243-271), and the loop.\<close>

definition epoch :: "approximators \<Rightarrow> seed \<Rightarrow> nat \<Rightarrow> globals \<Rightarrow> failure + globals" where
  "epoch M S n s =
     (case rollout M S n s of
        Inl e \<Rightarrow> Inl e
      | Inr s1 \<Rightarrow>
          (case learn M n (the_agent s1) of
             Inl e \<Rightarrow> Inl e
           | Inr a \<Rightarrow>
               Inr (s1\<lparr>the_agent := a, episode_scores := episode_scores s1 @ [score a]\<rparr>)))"

fun training :: "approximators \<Rightarrow> seed \<Rightarrow> nat \<Rightarrow> nat list \<Rightarrow> globals \<Rightarrow> failure + globals" where
  "training M S n [] s = Inr s"
| "training M S n (e # es) s =
     (case epoch M S n s of
        Inl err \<Rightarrow> Inl err
      | Inr s' \<Rightarrow> training M S n es s')"

subsection \<open>The state of an episode when the loop over \<open>i\<close> has ended\<close>

text \<open>
  The last index \<open>i\<close> that was run, the three buffers and the wealth: each of the first
  two buffers has \<open>n\<close> entries, the log-probability buffer has one entry for each step
  that was run, a positive wealth means that all \<open>n\<close> steps were run, and the entries
  after step \<open>i\<close> are the padding.
\<close>

definition episode_inv :: "nat \<Rightarrow> globals \<Rightarrow> nat \<Rightarrow> bool" where
  "episode_inv n s i \<longleftrightarrow>
     i < n \<and> loop_i s = Some i \<and> new_wealth s = Some (curr_wealth s) \<and> 0 \<le> curr_wealth s \<and>
     length (reward_memory (the_agent s)) = n \<and>
     length (value_memory (the_agent s)) = n \<and>
     length (action_memory (the_agent s)) = Suc i \<and>
     (curr_wealth s \<noteq> 0 \<longrightarrow> Suc i = n) \<and>
     (\<forall>k. i < k \<and> k < n \<longrightarrow>
        reward_memory (the_agent s) ! k = 0 \<and> value_memory (the_agent s) ! k = Tensor 0)"

subsection \<open>A concrete run\<close>

text \<open>
  Networks that answer every state with value 1, mean \<open>-1000\<close> and a second slice of 21.
  Under \<open>ruin_seed\<close> the first wealth is 1, the first action is \<open>-1000\<close> and the first
  transition leaves the wealth below 0. Under \<open>calm_seed\<close> every action is 0 and the wealth stays at 1.
\<close>

definition demo_approximators :: approximators where
  "demo_approximators = \<lparr>value_layers = (\<lambda>p obs. \<lparr>item = 1, grad = 1\<rparr>),
          policy_layers = (\<lambda>p obs. (\<lparr>item = - 1000, grad = 1\<rparr>, \<lparr>item = 21, grad = 1\<rparr>)),
          value_step = (\<lambda>p l. p), policy_step = (\<lambda>p l. p)\<rparr>"

definition ruin_seed :: seed where
  "ruin_seed = \<lparr>np_seq = (\<lambda>k. if k = 0 then 2 / 3 else 0), torch_seq = (\<lambda>k. 0)\<rparr>"

definition fresh_agent :: agent where
  "fresh_agent = \<lparr>reward_memory = [], action_memory = [], value_memory = [], mean_memory = [],
          sd_memory = [], value_params = [], policy_params = [], mean = Tensor 0, sd = Tensor 0,
          reward = 0, score = 0\<rparr>"

definition fresh_globals :: globals where
  "fresh_globals = \<lparr>the_agent = fresh_agent, the_rng = \<lparr>np_pos = 0, torch_pos = 0\<rparr>, episode_scores = [],
          episode_values = [], episode_wealths = [], curr_wealth = 0, new_wealth = None,
          action_var = None, loop_i = None\<rparr>"


text \<open>
  Networks whose second slice is \<open>-200\<close> at every state, and a seed whose draws are all 0.
\<close>

definition underflow_approximators :: approximators where
  "underflow_approximators = \<lparr>value_layers = (\<lambda>p obs. \<lparr>item = 1, grad = 1\<rparr>),
          policy_layers = (\<lambda>p obs. (\<lparr>item = 3, grad = 1\<rparr>, \<lparr>item = - 200, grad = 1\<rparr>)),
          value_step = (\<lambda>p l. p), policy_step = (\<lambda>p l. p)\<rparr>"

definition zero_seed :: seed where
  "zero_seed = \<lparr>np_seq = (\<lambda>k. 0), torch_seq = (\<lambda>k. 0)\<rparr>"

section \<open>Properties\<close>

subsection \<open>Returns\<close>

lemma sum_rewards_upt:
  "j \<le> n \<Longrightarrow> n < length rm \<Longrightarrow>
   sum_rewards rm [j..<n] R = Inr (foldl (+) R (take (n - j) (drop (Suc j) rm)))"
proof (induction "n - j" arbitrary: j R)
  case 0
  then show ?case by simp
next
  case (Suc d)
  then have lt: "j < n" and d: "d = n - Suc j" by arith+
  have step: "take (n - j) (drop (Suc j) rm) = rm ! Suc j # take (n - Suc j) (drop (Suc (Suc j)) rm)"
  proof -
    have "Suc j < length rm" using lt Suc.prems by arith
    then have "drop (Suc j) rm = rm ! Suc j # drop (Suc (Suc j)) rm"
      by (simp add: Cons_nth_drop_Suc)
    moreover have "n - j = Suc (n - Suc j)" using lt by arith
    ultimately show ?thesis by simp
  qed
  have "sum_rewards rm [j..<n] R = sum_rewards rm [Suc j..<n] (R + rm ! Suc j)"
    using lt Suc.prems by (simp add: upt_conv_Cons py_get_def)
  also have "\<dots> = Inr (foldl (+) (R + rm ! Suc j) (take (n - Suc j) (drop (Suc (Suc j)) rm)))"
    using Suc.hyps(1) [OF d] lt Suc.prems by simp
  finally show ?case by (simp add: step)
qed

lemma G_loop_upt:
  "j \<le> n \<Longrightarrow> n < length rm \<Longrightarrow>
   G_loop rm n [j..<n] G =
     Inr (G @ map (\<lambda>i. foldl (+) 0 (take (n - i) (drop (Suc i) rm))) [j..<n])"
proof (induction "n - j" arbitrary: j G)
  case 0
  then show ?case by simp
next
  case (Suc d)
  then have lt: "j < n" and d: "d = n - Suc j" by arith+
  have "G_loop rm n [j..<n] G =
        G_loop rm n [Suc j..<n] (G @ [foldl (+) 0 (take (n - j) (drop (Suc j) rm))])"
    using lt Suc.prems sum_rewards_upt [of j n rm 0] by (simp add: upt_conv_Cons)
  also have "\<dots> = Inr ((G @ [foldl (+) 0 (take (n - j) (drop (Suc j) rm))]) @
        map (\<lambda>i. foldl (+) 0 (take (n - i) (drop (Suc i) rm))) [Suc j..<n])"
    using Suc.hyps(1) [OF d] lt Suc.prems by simp
  finally show ?case using lt by (simp add: upt_conv_Cons)
qed

lemma learn_G_eq:
  "n < length rm \<Longrightarrow>
   learn_G n rm = Inr (map (\<lambda>i. foldl (+) 0 (take (n - i) (drop (Suc i) rm))) [0..<n])"
  unfolding learn_G_def using G_loop_upt [of 0 n rm "[]"] by simp

text \<open>
  C1: when the reward list has \<open>n + 1\<close> entries, the gain list of \<open>Agent.learn\<close> has
  \<open>n\<close> entries and entry \<open>j\<close> is the sum, accumulated from 0 in index order, of the
  rewards stored after index \<open>j\<close>: \<open>rm[j+1] + ... + rm[n]\<close>, without \<open>rm[j]\<close>.
\<close>

theorem learn_G_suffix_sum:
  fixes rm :: "'a::{zero,plus} list"
  assumes "length rm = Suc n"
  shows "\<exists>G. learn_G n rm = Inr G \<and> length G = n \<and>
           (\<forall>j<n. G ! j = foldl (+) 0 (drop (Suc j) rm))"
proof -
  have "n < length rm" using assms by simp
  then have eq: "learn_G n rm =
      Inr (map (\<lambda>i. foldl (+) 0 (take (n - i) (drop (Suc i) rm))) [0..<n])"
    by (rule learn_G_eq)
  have "\<forall>j<n. take (n - j) (drop (Suc j) rm) = drop (Suc j) rm"
    using assms by simp
  then show ?thesis using eq by simp
qed

theorem learn_G_suffix_sum_witness:
  "length [1, 2, 3, 4 :: int] = Suc 3 \<and> learn_G 3 [1, 2, 3, 4 :: int] = Inr [9, 7, 4]"
proof -
  have len: "length [1, 2, 3, 4 :: int] = Suc 3" by simp
  from learn_G_suffix_sum [OF len] obtain G where
    G: "learn_G 3 [1, 2, 3, 4 :: int] = Inr G" "length G = 3"
       "\<forall>j<3. G ! j = foldl (+) 0 (drop (Suc j) [1, 2, 3, 4 :: int])"
    by blast
  have "G ! 0 = 9" "G ! 1 = 7" "G ! 2 = 4"
    using G(3) by (simp_all add: numeral_3_eq_3)
  then have "G = [9, 7, 4]"
    using G(2) by (auto simp: list_eq_iff_nth_eq less_Suc_eq numeral_3_eq_3 numeral_2_eq_2)
  then show ?thesis using G(1) by simp
qed

subsection \<open>The constants\<close>

lemma rho_eq: "rho = 8 / 10"
  by (simp add: rho_def mu_def r_def sigma_def)

lemma true_mean_eq: "true_mean x = 16 * x"
  by (simp add: true_mean_def rho_eq sigma_def gamma_def)

lemma norm_exp_unfold:
  "norm_exp k q e =
     (if k = 0 then e
      else if 2 \<le> q then norm_exp (k - 1) (q / 2) (e + 1)
      else if q < 1 then norm_exp (k - 1) (q * 2) (e - 1)
      else e)"
  by (cases k) simp_all

lemma round_half_even_of_int:
  assumes "0 < l"
  shows "round_half_even (rat_of_int k / rat_of_int l) =
     (if 2 * (k mod l) < l then k div l
      else if l < 2 * (k mod l) then k div l + 1
      else if even (k div l) then k div l else k div l + 1)"
proof -
  have fl: "\<lfloor>rat_of_int k / rat_of_int l\<rfloor> = k div l"
    by (rule floor_divide_of_int_eq)
  have "rat_of_int k = rat_of_int (k div l) * rat_of_int l + rat_of_int (k mod l)"
    by (metis div_mult_mod_eq of_int_add of_int_mult)
  then have d: "rat_of_int k / rat_of_int l - rat_of_int (k div l) = rat_of_int (k mod l) / rat_of_int l"
    using assms by (simp add: field_simps)
  have lt: "rat_of_int (k mod l) / rat_of_int l < 1 / 2 \<longleftrightarrow> 2 * (k mod l) < l"
  proof -
    have "rat_of_int (k mod l) / rat_of_int l < 1 / 2 \<longleftrightarrow> rat_of_int (2 * (k mod l)) < rat_of_int l"
      using assms by (simp add: field_simps)
    then show ?thesis by (simp only: of_int_less_iff)
  qed
  have gt: "1 / 2 < rat_of_int (k mod l) / rat_of_int l \<longleftrightarrow> l < 2 * (k mod l)"
  proof -
    have "1 / 2 < rat_of_int (k mod l) / rat_of_int l \<longleftrightarrow> rat_of_int l < rat_of_int (2 * (k mod l))"
      using assms by (simp add: field_simps)
    then show ?thesis by (simp only: of_int_less_iff)
  qed
  show ?thesis
    unfolding round_half_even_def Let_def fl d lt gt by simp
qed

lemma round_half_even_numeral:
  "round_half_even (numeral a / numeral b) =
     (if 2 * (numeral a mod numeral b) < (numeral b :: int) then numeral a div numeral b
      else if (numeral b :: int) < 2 * (numeral a mod numeral b) then numeral a div numeral b + 1
      else if even (numeral a div numeral b :: int) then numeral a div numeral b
      else numeral a div numeral b + 1)"
  using round_half_even_of_int [of "numeral b" "numeral a"] by simp

lemma round_half_even_int_numeral:
  "round_half_even (numeral a) = numeral a"
  by (simp add: round_half_even_def)

lemma round_half_even_neg_numeral:
  "round_half_even (- (numeral a / numeral b)) =
     (if 2 * (- numeral a mod numeral b) < (numeral b :: int) then - numeral a div numeral b
      else if (numeral b :: int) < 2 * (- numeral a mod numeral b) then - numeral a div numeral b + 1
      else if even (- numeral a div numeral b :: int) then - numeral a div numeral b
      else - numeral a div numeral b + 1)"
  using round_half_even_of_int [of "numeral b" "- numeral a"] by simp

lemmas f64_eval = fl_def norm_exp_unfold round_half_even_numeral round_half_even_int_numeral
  round_half_even_neg_numeral
  pow2_def Let_def

text \<open>
  Checks of the rounding on known doubles: a tie goes to the even significand, on both
  sides of zero, and the literal \<^verbatim>\<open>0.8\<close> is the double \<open>3602879701896397 / 2^52\<close>.
\<close>

lemma fl_ties_to_even:
  "fl (1 + 1 / 2 ^ 53) = Some 1"
  "fl (1 + 3 / 2 ^ 53) = Some (1 + 1 / 2 ^ 51)"
  "fl (- (1 + 3 / 2 ^ 53)) = Some (- (1 + 1 / 2 ^ 51))"
  by (simp_all add: f64_eval)

lemma fl_literal_08: "fl (8 / 10) = Some (3602879701896397 / 4503599627370496)"
  by (simp add: f64_eval)

lemma mu64_eq: "mu64 = Some (3602879701896397 / 36028797018963968)"
  by (simp add: mu64_def f64_eval)

lemma sigma64_eq: "sigma64 = Some (3602879701896397 / 36028797018963968)"
  by (simp add: sigma64_def f64_eval)

lemma r64_eq: "r64 = Some (5764607523034235 / 288230376151711744)"
  by (simp add: r64_def f64_eval)

lemma gamma64_eq: "gamma64 = Some (1 / 2)"
  by (simp add: gamma64_def f64_eval)

lemma rho64_eq: "rho64 = Some (7205759403792793 / 9007199254740992)"
  by (simp add: rho64_def mu64_eq r64_eq sigma64_eq f64_sub_def f64_div_def f64_eval)

lemma true_mean64_1: "true_mean64 1 = Some (9007199254740991 / 562949953421312)"
  by (simp add: true_mean64_def rho64_eq sigma64_eq gamma64_eq f64_sub_def f64_mul_def
      f64_div_def f64_eval)

lemma dt64_eq: "dt64 = Some (1385722962267845 / 72057594037927936)"
  by (simp add: dt64_def f64_div_def f64_eval)

lemma N64_eq: "N64 = Some 2"
  by (simp add: N64_def T64_def dt64_eq f64_mul_def f64_div_def f64_eval)

text \<open>
  C10 as stated (\<open>rho\<close> equals 0.8 exactly and \<open>true_mean 1\<close> equals 16) does not hold
  for the numbers the program computes: in binary64 \<open>rho\<close> is neither the rational
  \<open>8/10\<close> nor the double of the literal \<^verbatim>\<open>0.8\<close>, and \<open>true_mean 1.0\<close> is not 16.
\<close>

theorem sharpe_ratio_not_exact:
  "rho64 \<noteq> Some (8 / 10) \<and> rho64 \<noteq> fl (8 / 10) \<and> true_mean64 1 \<noteq> Some 16"
  by (simp add: rho64_eq true_mean64_1 f64_eval)

text \<open>
  C10, amended: in exact arithmetic \<open>rho = 0.8\<close> and \<open>true_mean x = 16 x\<close>; as the program
  computes them, \<open>rho\<close> is the double \<open>0.7999999999999999\<close>, which is \<open>0.8 - 0.6 / 2^53\<close>,
  and \<open>true_mean 1.0\<close> is the double \<open>15.999999999999998\<close>, which is \<open>16 - 1 / 2^49\<close>.
\<close>

theorem sharpe_ratio_values:
  "rho = 8 / 10 \<and> true_mean x = 16 * x \<and>
   rho64 = Some (8 / 10 - 3 / 5 * (1 / 2 ^ 53)) \<and>
   true_mean64 1 = Some (16 - 1 / 2 ^ 49)"
  by (simp add: rho_eq true_mean_eq rho64_eq true_mean64_1)

subsection \<open>Rounding\<close>

lemma norm_exp_real_unfold:
  "norm_exp_real k q e =
     (if k = 0 then e
      else if 2 \<le> q then norm_exp_real (k - 1) (q / 2) (e + 1)
      else if q < 1 then norm_exp_real (k - 1) (q * 2) (e - 1)
      else e)"
  by (cases k) simp_all

lemma round_half_even_real_of_int:
  assumes "0 < l"
  shows "round_half_even_real (real_of_int k / real_of_int l) =
     (if 2 * (k mod l) < l then k div l
      else if l < 2 * (k mod l) then k div l + 1
      else if even (k div l) then k div l else k div l + 1)"
proof -
  have fl: "\<lfloor>real_of_int k / real_of_int l\<rfloor> = k div l"
    by (rule floor_divide_of_int_eq)
  have "real_of_int k = real_of_int (k div l) * real_of_int l + real_of_int (k mod l)"
    by (metis div_mult_mod_eq of_int_add of_int_mult)
  then have d: "real_of_int k / real_of_int l - real_of_int (k div l) = real_of_int (k mod l) / real_of_int l"
    using assms by (simp add: field_simps)
  have lt: "real_of_int (k mod l) / real_of_int l < 1 / 2 \<longleftrightarrow> 2 * (k mod l) < l"
  proof -
    have "real_of_int (k mod l) / real_of_int l < 1 / 2 \<longleftrightarrow> real_of_int (2 * (k mod l)) < real_of_int l"
      using assms by (simp add: field_simps)
    then show ?thesis by (simp only: of_int_less_iff)
  qed
  have gt: "1 / 2 < real_of_int (k mod l) / real_of_int l \<longleftrightarrow> l < 2 * (k mod l)"
  proof -
    have "1 / 2 < real_of_int (k mod l) / real_of_int l \<longleftrightarrow> real_of_int l < real_of_int (2 * (k mod l))"
      using assms by (simp add: field_simps)
    then show ?thesis by (simp only: of_int_less_iff)
  qed
  show ?thesis
    unfolding round_half_even_real_def Let_def fl d lt gt by simp
qed

lemma round_half_even_real_numeral:
  "round_half_even_real (numeral a / numeral b) =
     (if 2 * (numeral a mod numeral b) < (numeral b :: int) then numeral a div numeral b
      else if (numeral b :: int) < 2 * (numeral a mod numeral b) then numeral a div numeral b + 1
      else if even (numeral a div numeral b :: int) then numeral a div numeral b
      else numeral a div numeral b + 1)"
  using round_half_even_real_of_int [of "numeral b" "numeral a"] by simp

lemma round_half_even_real_neg_numeral:
  "round_half_even_real (- (numeral a / numeral b)) =
     (if 2 * (- numeral a mod numeral b) < (numeral b :: int) then - numeral a div numeral b
      else if (numeral b :: int) < 2 * (- numeral a mod numeral b) then - numeral a div numeral b + 1
      else if even (- numeral a div numeral b :: int) then - numeral a div numeral b
      else - numeral a div numeral b + 1)"
  using round_half_even_real_of_int [of "numeral b" "- numeral a"] by simp

lemma round_half_even_real_int:
  "round_half_even_real (numeral a) = numeral a"
  "round_half_even_real (- numeral a) = - numeral a"
  "round_half_even_real 0 = 0" "round_half_even_real 1 = 1"
  by (simp_all add: round_half_even_real_def)

lemmas real_eval = fl64_def rn64_def rnd_def norm_exp_real_unfold round_half_even_real_numeral
  round_half_even_real_neg_numeral round_half_even_real_int p2_def Let_def

lemma norm_exp_real_le:
  "q < 2 \<Longrightarrow> norm_exp_real k q e \<le> e"
proof (induction k arbitrary: q e)
  case 0
  show ?case by simp
next
  case (Suc k)
  show ?case
  proof (cases "q < 1")
    case True
    then have "norm_exp_real k (q * 2) (e - 1) \<le> e - 1" by (intro Suc.IH) simp
    then show ?thesis using True Suc.prems by simp
  next
    case False
    then show ?thesis using Suc.prems by simp
  qed
qed

lemma norm_exp_real_small:
  "q * 2 ^ j < 1 \<Longrightarrow> 0 < q \<Longrightarrow> j \<le> k \<Longrightarrow> norm_exp_real k q e \<le> e - int j"
proof (induction k arbitrary: q e j)
  case 0
  then show ?case by simp
next
  case (Suc k)
  show ?case
  proof (cases j)
    case 0
    have "q < 2" using Suc.prems(1) 0 by simp
    then have "norm_exp_real (Suc k) q e \<le> e" by (rule norm_exp_real_le)
    then show ?thesis using 0 by (simp del: norm_exp_real.simps)
  next
    case (Suc j')
    have "1 \<le> (2::real) ^ j" by simp
    then have "q \<le> q * 2 ^ j" using Suc.prems(2) by simp
    then have q1: "q < 1" using Suc.prems(1) by simp
    have "(q * 2) * 2 ^ j' < 1" using Suc.prems(1) Suc by (simp add: mult.assoc)
    then have "norm_exp_real k (q * 2) (e - 1) \<le> (e - 1) - int j'"
      using Suc.prems Suc by (intro Suc.IH) simp_all
    then show ?thesis using q1 Suc by simp
  qed
qed

lemma rn32_underflow:
  assumes "0 < q" and "q * 2 ^ 150 < 1"
  shows "rn32 q = 0"
proof -
  have "norm_exp_real 1100 \<bar>q\<bar> 0 \<le> 0 - int 150"
    using assms by (intro norm_exp_real_small) simp_all
  then have e: "max (norm_exp_real 1100 \<bar>q\<bar> 0) (- 126) = - 126" by simp
  have "q * 2 ^ 149 * 2 < 1" using assms(2) by simp
  then have half: "q * 2 ^ 149 < 1 / 2" by simp
  have pos: "0 < q * 2 ^ 149" using assms(1) by simp
  have "\<lfloor>q * 2 ^ 149\<rfloor> = 0" using half pos by (intro floor_unique) simp_all
  then have "round_half_even_real (q * 2 ^ 149) = 0"
    using half by (simp add: round_half_even_real_def)
  then show ?thesis using assms(1) e by (simp add: rn32_def rnd_def p2_def Let_def)
qed

lemma exp32_underflow: "exp32 (- 200) = 0"
proof -
  have "(2::real) \<le> exp 1" using exp_ge_add_one_self [of 1] by simp
  then have "(2::real) ^ 200 \<le> exp 1 ^ 200" by (intro power_mono) simp_all
  also have "\<dots> = exp 200" by (simp add: exp_of_nat_mult [symmetric])
  finally have "(2::real) ^ 200 \<le> exp 200" .
  moreover have "(2::real) ^ 150 < 2 ^ 200" by simp
  ultimately have "(2::real) ^ 150 < exp 200" by linarith
  then have "exp (- 200) * 2 ^ 150 < (1::real)"
    by (simp add: exp_minus field_simps)
  then show ?thesis unfolding exp32_def by (intro rn32_underflow) simp_all
qed

lemma softplus_underflow: "item (softplus \<lparr>item = - 200, grad = c\<rparr>) = 0"
  by (simp add: softplus_def exp32_underflow log1p32_def rn32_def rnd_def)

subsection \<open>The rollout\<close>

lemma pad_eq:
  "pad ks a = a\<lparr>reward_memory := reward_memory a @ replicate (length ks) 0,
                 value_memory := value_memory a @ replicate (length ks) (Tensor 0)\<rparr>"
proof (induction ks arbitrary: a)
  case Nil
  show ?case by simp
next
  case (Cons k ks)
  show ?case
    by (simp add: Cons.IH store_value_def store_rewards_def replicate_app_Cons_same)
qed

lemma loop_body_facts:
  assumes "loop_body M S n i s = Inr (s', broke)"
  shows "broke \<longleftrightarrow> curr_wealth s' = 0"
    and "new_wealth s' = Some (curr_wealth s')"
    and "loop_i s' = Some i"
    and "0 \<le> curr_wealth s'"
    and "\<exists>lp. action_memory (the_agent s') = action_memory (the_agent s) @ [lp]"
    and "\<exists>x. reward_memory (the_agent s') =
           reward_memory (the_agent s) @ x # (if broke then replicate (n - 1 - i) 0 else [])"
    and "\<exists>v. value_memory (the_agent s') =
           value_memory (the_agent s) @ v # (if broke then replicate (n - 1 - i) (Tensor 0) else [])"
  using assms
  by (auto simp: loop_body_def Let_def pad_eq choose_action_def store_value_def store_rewards_def
      store_means_def store_sds_def wealth_def np_random_randn_def torch_randn_def
      split: prod.splits if_splits sum.splits option.splits)

lemma for_i_inv:
  assumes "length (reward_memory (the_agent s)) = i0"
    and "length (value_memory (the_agent s)) = i0"
    and "length (action_memory (the_agent s)) = i0"
    and "i0 < n"
    and "for_i M S n [i0..<n] s = Inr s'"
  shows "\<exists>i. episode_inv n s' i"
  using assms
proof (induction "n - i0" arbitrary: i0 s)
  case 0
  then show ?case by simp
next
  case (Suc d)
  have unf0: "for_i M S n [i0..<n] s =
      (case loop_body M S n i0 s of
         Inl e \<Rightarrow> Inl e
       | Inr (s1, broke) \<Rightarrow> if broke then Inr s1 else for_i M S n [Suc i0..<n] s1)"
    using Suc.prems(4) by (simp add: upt_conv_Cons)
  with Suc.prems(5) obtain s1 broke where lb: "loop_body M S n i0 s = Inr (s1, broke)"
    by (cases "loop_body M S n i0 s") auto
  note f = loop_body_facts [OF lb]
  from f(5) obtain lp where
    am: "action_memory (the_agent s1) = action_memory (the_agent s) @ [lp]" by blast
  from f(6) obtain x where
    rm: "reward_memory (the_agent s1) =
         reward_memory (the_agent s) @ x # (if broke then replicate (n - 1 - i0) 0 else [])" by blast
  from f(7) obtain v where
    vm: "value_memory (the_agent s1) =
         value_memory (the_agent s) @ v # (if broke then replicate (n - 1 - i0) (Tensor 0) else [])" by blast
  have unf: "(if broke then Inr s1 else for_i M S n [Suc i0..<n] s1) = Inr s'"
    using unf0 lb Suc.prems(5) by simp
  show ?case
  proof (cases broke)
    case True
    have "episode_inv n s1 i0"
      unfolding episode_inv_def
      using True f(1-4) am rm vm Suc.prems(1-4)
      by (auto simp: nth_append)
    then show ?thesis using unf True by auto
  next
    case False
    show ?thesis
    proof (cases "Suc i0 = n")
      case True
      have "episode_inv n s1 i0"
        unfolding episode_inv_def
        using False True f(1-4) am rm vm Suc.prems(1-4)
        by auto
      then show ?thesis using unf False True by auto
    next
      case neq: False
      then have lt: "Suc i0 < n" and d: "d = n - Suc i0" using Suc.prems(4) Suc.hyps(2) by arith+
      have rest: "for_i M S n [Suc i0..<n] s1 = Inr s'" using unf False by simp
      show ?thesis
        using Suc.hyps(1) [OF d _ _ _ lt rest] False am rm vm Suc.prems(1-4) by simp
    qed
  qed
qed

lemma util_nonneg: "0 \<le> x \<Longrightarrow> util x = Some (x powr gamma)"
  by (simp add: util_def)

lemma util_zero: "util 0 = Some 0"
  by (simp add: util_def)

lemma rollout_inv:
  assumes "0 < n"
    and "reward_memory (the_agent s) = []"
    and "value_memory (the_agent s) = []"
    and "action_memory (the_agent s) = []"
    and "rollout M S n s = Inr s'"
  shows "\<exists>s1 i. episode_inv n s1 i \<and>
           s' = s1\<lparr>the_agent := store_rewards (the_agent s1) (curr_wealth s1 powr gamma)\<rparr>"
proof -
  define s0 where "s0 = s\<lparr>episode_wealths := [], curr_wealth := fst (np_random_uniform S 0 (3 / 2) (the_rng s)),
                          the_rng := snd (np_random_uniform S 0 (3 / 2) (the_rng s))\<rparr>"
  have ro: "rollout M S n s =
     (case for_i M S n [0..<n] s0 of
           Inl e \<Rightarrow> Inl e
         | Inr s1 \<Rightarrow>
             (case new_wealth s1 of
                None \<Rightarrow> Inl NameError
              | Some w \<Rightarrow>
                  (case util w of
                     None \<Rightarrow> Inl NotReal
                   | Some u \<Rightarrow> Inr (s1\<lparr>the_agent := store_rewards (the_agent s1) u\<rparr>))))"
    by (simp add: rollout_def s0_def split_beta Let_def)
  with assms(5) obtain s1 where f: "for_i M S n [0..<n] s0 = Inr s1"
    by (cases "for_i M S n [0..<n] s0") auto
  have "\<exists>i. episode_inv n s1 i"
    by (rule for_i_inv [OF _ _ _ assms(1) f]) (simp_all add: s0_def assms)
  then obtain i where inv: "episode_inv n s1 i" ..
  then have nw: "new_wealth s1 = Some (curr_wealth s1)" and nn: "0 \<le> curr_wealth s1"
    by (simp_all add: episode_inv_def)
  have "s' = s1\<lparr>the_agent := store_rewards (the_agent s1) (curr_wealth s1 powr gamma)\<rparr>"
    using assms(5) unfolding ro f by (simp add: nw util_nonneg [OF nn])
  then show ?thesis using inv by blast
qed

lemma sigma64_real: "map_option real_of_rat sigma64 = Some (3602879701896397 / 36028797018963968)"
  by (simp add: sigma64_eq of_rat_divide)

lemma rho64_real: "map_option real_of_rat rho64 = Some (7205759403792793 / 9007199254740992)"
  by (simp add: rho64_eq of_rat_divide)

lemma dt64_real: "map_option real_of_rat dt64 = Some (1385722962267845 / 72057594037927936)"
  by (simp add: dt64_eq of_rat_divide)

lemma wealth_at_zero_draw:
  assumes "np_seq S (np_pos g) = 0"
  shows "wealth S x a g =
     (do { p \<leftarrow> fl64 (3602879701896397 / 36028797018963968 * a);
           f \<leftarrow> fl64 (p * (8868626958514207 / 576460752303423488));
           fl64 (x + f) },
      g\<lparr>np_pos := Suc (np_pos g)\<rparr>)"
proof -
  have b: "fl64 (7205759403792793 / 9007199254740992 * (1385722962267845 / 72057594037927936))
      = Some (8868626958514207 / 576460752303423488)"
    by (simp add: real_eval)
  have b': "fl64 (9985186266413129777721746641085 / 649037107316853453566312041152512)
      = Some (8868626958514207 / 576460752303423488)"
    using b by simp
  have z: "fl64 0 = Some 0" by (simp add: real_eval)
  have e: "fl64 (8868626958514207 / 576460752303423488) = Some (8868626958514207 / 576460752303423488)"
    by (simp add: real_eval)
  show ?thesis
    unfolding wealth_def np_random_randn_def sigma64_real rho64_real dt64_real
    using assms by (simp add: b' z e)
qed

lemma N_eq: "N = 2"
  by (simp add: N_def T_def dt_def)

lemma demo_choose_action:
  "choose_action demo_approximators S a g w t =
     (Inr (- 1000 + 21 * torch_seq S (torch_pos g)),
      a\<lparr>mean := \<lparr>item = - 1000, grad = 1\<rparr>, sd := \<lparr>item = 21, grad = 1\<rparr>,
        action_memory := action_memory a @
          [Normal_log_prob \<lparr>item = - 1000, grad = 1\<rparr> \<lparr>item = 21, grad = 1\<rparr>
             (- 1000 + 21 * torch_seq S (torch_pos g))],
        reward := lam * item (Normal_entropy \<lparr>item = - 1000, grad = 1\<rparr> \<lparr>item = 21, grad = 1\<rparr>)\<rparr>,
      g\<lparr>torch_pos := Suc (torch_pos g)\<rparr>)"
  by (simp add: choose_action_def demo_approximators_def PolicyNetwork_forward_def softplus_def
      torch_randn_def Normal_sample_def Let_def)

lemma wealth_ruin:
  assumes "np_seq S (np_pos g) = 0"
  shows "wealth S 1 (- 1000) g =
    (Some (- (303126897996091 / 562949953421312)), g\<lparr>np_pos := Suc (np_pos g)\<rparr>)"
proof -
  have a: "fl64 (3602879701896397 / 36028797018963968 * (- 1000)) = Some (- 100)"
    by (simp add: real_eval)
  have f: "fl64 (- 100 * (8868626958514207 / 576460752303423488))
      = Some (- (866076851417403 / 562949953421312))"
    by (simp add: real_eval)
  have r: "fl64 (1 + - (866076851417403 / 562949953421312))
      = Some (- (303126897996091 / 562949953421312))"
    by (simp add: real_eval)
  show ?thesis using a f r by (simp add: wealth_at_zero_draw [OF assms])
qed

lemma wealth_calm:
  assumes "np_seq S (np_pos g) = 0"
  shows "wealth S 1 0 g = (Some 1, g\<lparr>np_pos := Suc (np_pos g)\<rparr>)"
proof -
  have a: "fl64 0 = Some 0" by (simp add: real_eval)
  have r: "fl64 1 = Some 1" by (simp add: real_eval)
  show ?thesis using a r by (simp add: wealth_at_zero_draw [OF assms])
qed

lemmas run_defs = rollout_def np_random_uniform_def upt_rec loop_body_def
    get_value_def ValueFuncNetwork_forward_def store_value_def demo_choose_action
    store_rewards_def wealth_ruin wealth_calm store_means_def store_sds_def util_def Let_def

lemma ruin_run:
  "\<exists>s'. rollout demo_approximators ruin_seed N fresh_globals = Inr s' \<and> loop_i s' = Some 0 \<and>
     curr_wealth s' = 0"
  by (simp add: N_eq ruin_seed_def fresh_agent_def fresh_globals_def run_defs)


subsection \<open>The buffers and the losses\<close>

lemma deltas_loop_upt:
  "j \<le> n \<Longrightarrow> n \<le> length G \<Longrightarrow> n \<le> length vm \<Longrightarrow>
   deltas_loop G vm [j..<n] ds = Inr (ds @ map (\<lambda>i. G ! i - item (vm ! i)) [j..<n])"
proof (induction "n - j" arbitrary: j ds)
  case 0
  then show ?case by simp
next
  case (Suc d)
  then have lt: "j < n" and d: "d = n - Suc j" by arith+
  have "deltas_loop G vm [j..<n] ds = deltas_loop G vm [Suc j..<n] (ds @ [G ! j - item (vm ! j)])"
    using lt Suc.prems by (simp add: upt_conv_Cons py_get_def)
  also have "\<dots> = Inr ((ds @ [G ! j - item (vm ! j)]) @ map (\<lambda>i. G ! i - item (vm ! i)) [Suc j..<n])"
    using Suc.hyps(1) [OF d] lt Suc.prems by simp
  finally show ?case using lt by (simp add: upt_conv_Cons)
qed




lemma learn_losses_ok:
  assumes "0 < n" and "length (reward_memory a) = Suc n" and "length (value_memory a) = n"
  shows "\<exists>l. learn_losses n a = Inr l \<and>
           learn_G n (reward_memory a) = Inr (G_var l) \<and> length (G_var l) = n \<and>
           deltas_var l = map (\<lambda>j. G_var l ! j - item (value_memory a ! j)) [0..<n] \<and>
           score_var l = G_var l ! 0 \<and>
           val_loss l = loss_loop (zip (deltas_var l) (value_memory a)) (Tensor 0) \<and>
           policy_loss l = loss_loop (zip (deltas_var l) (action_memory a)) (Tensor 0) \<and>
           total_loss l = tadd (val_loss l) (policy_loss l)"
proof -
  have "n < length (reward_memory a)" using assms by simp
  from learn_G_eq [OF this] obtain G where
    G: "learn_G n (reward_memory a) = Inr G" "length G = n" by simp
  have ds: "deltas_loop G (value_memory a) [0..<n] [] =
      Inr (map (\<lambda>j. G ! j - item (value_memory a ! j)) [0..<n])"
    using deltas_loop_upt [of 0 n G "value_memory a" "[]"] G(2) assms by simp
  have g0: "py_get G 0 = Inr (G ! 0)" using G(2) assms(1) by (simp add: py_get_def)
  show ?thesis
    unfolding learn_losses_def using G ds g0 by (simp add: Let_def)
qed


lemma fresh_empty:
  "0 < N" "reward_memory (the_agent fresh_globals) = []"
  "value_memory (the_agent fresh_globals) = []" "action_memory (the_agent fresh_globals) = []"
  by (simp_all add: N_eq fresh_globals_def fresh_agent_def)

lemma rollout_buffers:
  assumes "0 < n"
    and "reward_memory (the_agent s) = []"
    and "value_memory (the_agent s) = []"
    and "action_memory (the_agent s) = []"
    and "rollout M S n s = Inr s'"
  shows "\<exists>i. i < n \<and> loop_i s' = Some i \<and>
           length (reward_memory (the_agent s')) = Suc n \<and>
           length (value_memory (the_agent s')) = n \<and>
           length (action_memory (the_agent s')) = Suc i \<and>
           (curr_wealth s' \<noteq> 0 \<longrightarrow> Suc i = n) \<and>
           (\<forall>k. i < k \<and> k < n \<longrightarrow> value_memory (the_agent s') ! k = Tensor 0)"
proof -
  from rollout_inv [OF assms] obtain s1 i where
    inv: "episode_inv n s1 i" and
    s': "s' = s1\<lparr>the_agent := store_rewards (the_agent s1) (curr_wealth s1 powr gamma)\<rparr>"
    by blast
  show ?thesis
    using inv unfolding episode_inv_def s' by (auto simp: store_rewards_def)
qed

text \<open>
  C3: in an episode that starts with empty buffers and ends with the loop at index \<open>i\<close>
  and wealth 0, the stored rewards and the stored value estimates of the steps after
  \<open>i\<close> are 0, and the one reward appended after the loop, at index \<open>n\<close>, is
  \<open>util 0\<close>, which is 0.
\<close>

theorem ruin_pads_zero:
  assumes "0 < n"
    and "reward_memory (the_agent s) = []"
    and "value_memory (the_agent s) = []"
    and "action_memory (the_agent s) = []"
    and "rollout M S n s = Inr s'"
    and "loop_i s' = Some i"
    and "curr_wealth s' = 0"
  shows "i < n \<and>
         length (reward_memory (the_agent s')) = Suc n \<and>
         length (value_memory (the_agent s')) = n \<and>
         (\<forall>k. i < k \<and> k < n \<longrightarrow>
            reward_memory (the_agent s') ! k = 0 \<and> value_memory (the_agent s') ! k = Tensor 0) \<and>
         util 0 = Some 0 \<and>
         reward_memory (the_agent s') ! n = 0"
proof -
  from rollout_inv [OF assms(1-5)] obtain s1 i' where
    inv: "episode_inv n s1 i'" and
    s': "s' = s1\<lparr>the_agent := store_rewards (the_agent s1) (curr_wealth s1 powr gamma)\<rparr>"
    by blast
  have i: "i' = i" and c: "curr_wealth s1 = 0"
    using assms(6,7) inv by (simp_all add: s' episode_inv_def)
  have rm: "reward_memory (the_agent s') = reward_memory (the_agent s1) @ [0]"
    and vm: "value_memory (the_agent s') = value_memory (the_agent s1)"
    by (simp_all add: s' store_rewards_def c)
  show ?thesis
    using inv unfolding episode_inv_def i rm vm
    by (auto simp: nth_append util_zero)
qed

theorem ruin_pads_zero_witness:
  "0 < N \<and> reward_memory (the_agent fresh_globals) = [] \<and> value_memory (the_agent fresh_globals) = [] \<and>
   action_memory (the_agent fresh_globals) = [] \<and>
   (\<exists>s'. rollout demo_approximators ruin_seed N fresh_globals = Inr s' \<and> loop_i s' = Some 0 \<and> curr_wealth s' = 0 \<and>
      reward_memory (the_agent s') ! 1 = 0 \<and> value_memory (the_agent s') ! 1 = Tensor 0 \<and>
      reward_memory (the_agent s') ! N = 0)"
proof -
  have h: "0 < N" "reward_memory (the_agent fresh_globals) = []" "value_memory (the_agent fresh_globals) = []"
    "action_memory (the_agent fresh_globals) = []"
    by (simp_all add: N_eq fresh_globals_def fresh_agent_def)
  from ruin_run obtain s' where
    s': "rollout demo_approximators ruin_seed N fresh_globals = Inr s'" "loop_i s' = Some 0" "curr_wealth s' = 0" by blast
  from ruin_pads_zero [OF h s'] have
    "reward_memory (the_agent s') ! 1 = 0 \<and> value_memory (the_agent s') ! 1 = Tensor 0 \<and>
     reward_memory (the_agent s') ! N = 0"
    by (simp add: N_eq)
  then show ?thesis using h s' by blast
qed

lemma loop_body_fail:
  "loop_body M S n i s = Inl e \<Longrightarrow> e = ValueError \<or> e = NotFinite"
  by (auto simp: loop_body_def Let_def choose_action_def split: prod.splits if_splits sum.splits option.splits)

lemma for_i_fail:
  "for_i M S n js s = Inl e \<Longrightarrow> e = ValueError \<or> e = NotFinite"
proof (induction js arbitrary: s)
  case Nil
  then show ?case by simp
next
  case (Cons j js)
  show ?case
  proof (cases "loop_body M S n j s")
    case (Inl e')
    then show ?thesis using Cons.prems loop_body_fail [OF Inl] by simp
  next
    case (Inr p)
    then show ?thesis using Cons.prems Cons.IH by (cases p) (auto split: if_splits)
  qed
qed

lemma rollout_fail:
  assumes "0 < n"
    and "reward_memory (the_agent s) = []"
    and "value_memory (the_agent s) = []"
    and "action_memory (the_agent s) = []"
    and "rollout M S n s = Inl e"
  shows "e = ValueError \<or> e = NotFinite"
proof -
  define s0 where "s0 = s\<lparr>episode_wealths := [], curr_wealth := fst (np_random_uniform S 0 (3 / 2) (the_rng s)),
                          the_rng := snd (np_random_uniform S 0 (3 / 2) (the_rng s))\<rparr>"
  show ?thesis
  proof (cases "for_i M S n [0..<n] s0")
    case (Inl e')
    then have "rollout M S n s = Inl e'" by (simp add: rollout_def s0_def split_beta Let_def)
    then show ?thesis using assms(5) for_i_fail [OF Inl] by simp
  next
    case (Inr s1)
    have "\<exists>i. episode_inv n s1 i"
      by (rule for_i_inv [OF _ _ _ assms(1) Inr]) (simp_all add: s0_def assms)
    then obtain i where inv: "episode_inv n s1 i" ..
    then have nw: "new_wealth s1 = Some (curr_wealth s1)" and nn: "0 \<le> curr_wealth s1"
      by (simp_all add: episode_inv_def)
    have "\<exists>s'. rollout M S n s = Inr s'"
      using Inr nw util_nonneg [OF nn] by (simp add: rollout_def s0_def split_beta Let_def)
    then show ?thesis using assms(5) by simp
  qed
qed

text \<open>
  C8: an episode that starts with empty buffers either stops inside the rollout, on the
  \<^verbatim>\<open>ValueError\<close> of a scale that is not positive or on a wealth that is not finite, or
  reaches \<^verbatim>\<open>learn\<close> with \<open>n + 1\<close> rewards and \<open>n\<close> value estimates, whether or not
  it ended early; then every read \<^verbatim>\<open>reward_memory[k+1]\<close> and \<^verbatim>\<open>value_memory[j]\<close> of
  \<^verbatim>\<open>learn\<close> is in range and \<^verbatim>\<open>learn\<close> returns.
\<close>

theorem learn_indices_in_bounds:
  assumes "0 < n"
    and "reward_memory (the_agent s) = []"
    and "value_memory (the_agent s) = []"
    and "action_memory (the_agent s) = []"
  shows "(\<exists>s'. rollout M S n s = Inr s' \<and>
           length (reward_memory (the_agent s')) = Suc n \<and>
           length (value_memory (the_agent s')) = n \<and>
           (\<forall>k<n. \<exists>x. py_get (reward_memory (the_agent s')) (k + 1) = Inr x) \<and>
           (\<forall>j<n. \<exists>v. py_get (value_memory (the_agent s')) j = Inr v) \<and>
           (\<exists>a'. learn M n (the_agent s') = Inr a')) \<or>
         rollout M S n s = Inl ValueError \<or> rollout M S n s = Inl NotFinite"
proof (cases "rollout M S n s")
  case (Inl e)
  from rollout_fail [OF assms Inl] show ?thesis using Inl by auto
next
  case (Inr s')
  from rollout_buffers [OF assms Inr] have
    rm: "length (reward_memory (the_agent s')) = Suc n"
    and vm: "length (value_memory (the_agent s')) = n" by auto
  from learn_losses_ok [OF assms(1) rm vm] obtain l where "learn_losses n (the_agent s') = Inr l"
    by blast
  then have "\<exists>a'. learn M n (the_agent s') = Inr a'" by (simp add: learn_def)
  then show ?thesis using Inr rm vm by (simp add: py_get_def)
qed

theorem learn_indices_in_bounds_witness:
  "\<exists>s'. rollout demo_approximators ruin_seed N fresh_globals = Inr s' \<and>
     length (reward_memory (the_agent s')) = 3 \<and> length (value_memory (the_agent s')) = 2 \<and>
     (\<exists>a'. learn demo_approximators N (the_agent s') = Inr a')"
proof -
  from ruin_run obtain s0 where s0: "rollout demo_approximators ruin_seed N fresh_globals = Inr s0"
    by blast
  from learn_indices_in_bounds [OF fresh_empty, of demo_approximators ruin_seed] show ?thesis
    unfolding s0 by (auto simp: N_eq)
qed






subsection \<open>The scale of the policy\<close>

text \<open>
  C4 (the scale is strictly positive for every finite input) fails in the code: for a
  second slice of \<open>-200\<close>, \<^verbatim>\<open>exp\<close> underflows to 0 in binary32, \<^verbatim>\<open>softplus\<close> returns
  exactly 0, and \<^verbatim>\<open>choose_action\<close> raises \<^verbatim>\<open>ValueError\<close> when it builds the
  distribution. The comment on line 68 says the activation makes the sd positive.
\<close>

theorem scale_underflow:
  "item (snd (PolicyNetwork_forward underflow_approximators [] [1, T])) = 0 \<and>
   fst (choose_action underflow_approximators zero_seed fresh_agent
          \<lparr>np_pos = 0, torch_pos = 0\<rparr> 1 0) = Inl ValueError"
  by (simp add: PolicyNetwork_forward_def underflow_approximators_def softplus_underflow
      choose_action_def Let_def)

subsection \<open>The transition\<close>

text \<open>
  C5 as stated (\<^verbatim>\<open>wealth\<close> returns exactly \<open>x + sigma a (rho dt + sqrt dt Z)\<close>) does not
  hold: at \<open>x = 1\<close>, \<open>a = -650\<close>, \<open>Z = 0\<close> the exact value is 0 and the code returns
  \<open>1 / 2^53\<close>.
\<close>

theorem wealth_not_exact:
  "fst (wealth zero_seed 1 (- 650) \<lparr>np_pos = 0, torch_pos = 0\<rparr>) = Some (1 / 2 ^ 53) \<and>
   1 + sigma * (- 650) * (rho * dt + sqrt dt * np_seq zero_seed 0) = 0"
proof -
  have z: "np_seq zero_seed (np_pos \<lparr>np_pos = 0, torch_pos = 0\<rparr>) = 0"
    by (simp add: zero_seed_def)
  have a: "fl64 (3602879701896397 / 36028797018963968 * (- 650)) = Some (- 65)"
    by (simp add: real_eval)
  have f: "fl64 (- 65 * (8868626958514207 / 576460752303423488))
      = Some (- (9007199254740991 / 9007199254740992))"
    by (simp add: real_eval)
  have r: "fl64 (1 + - (9007199254740991 / 9007199254740992)) = Some (1 / 9007199254740992)"
    by (simp add: real_eval)
  have w: "fst (wealth zero_seed 1 (- 650) \<lparr>np_pos = 0, torch_pos = 0\<rparr>) = Some (1 / 2 ^ 53)"
    using a f r by (simp add: wealth_at_zero_draw [OF z])
  have "1 + sigma * (- 650) * (rho * dt + sqrt dt * np_seq zero_seed 0) = 0"
    by (simp add: zero_seed_def sigma_def rho_def mu_def r_def dt_def)
  then show ?thesis using w by simp
qed

text \<open>
  C5, amended: \<^verbatim>\<open>wealth(x, a)\<close> returns the value of \<open>x + sigma a (rho dt + sqrt dt Z)\<close>
  as binary64 computes it, each operation rounded to the nearest double, with the
  doubles of \<open>sigma\<close> (\<open>3602879701896397 / 2^55\<close>), of \<open>dt\<close> and of the product
  \<^verbatim>\<open>rho*dt\<close> (\<open>8868626958514207 / 2^59\<close>); \<open>Z\<close> is the next draw of numpy's generator, and
  the call takes that one draw and no other.
\<close>

theorem wealth_one_draw:
  "wealth S x a g =
     (do { p \<leftarrow> fl64 (3602879701896397 / 36028797018963968 * a);
           c \<leftarrow> fl64 (np_sqrt (1385722962267845 / 72057594037927936) * np_seq S (np_pos g));
           e \<leftarrow> fl64 (8868626958514207 / 576460752303423488 + c);
           f \<leftarrow> fl64 (p * e);
           fl64 (x + f) },
      g\<lparr>np_pos := Suc (np_pos g)\<rparr>)"
proof -
  have b: "fl64 (7205759403792793 / 9007199254740992 * (1385722962267845 / 72057594037927936))
      = Some (8868626958514207 / 576460752303423488)"
    by (simp add: real_eval)
  have b': "fl64 (9985186266413129777721746641085 / 649037107316853453566312041152512)
      = Some (8868626958514207 / 576460752303423488)"
    using b by simp
  show ?thesis
    unfolding wealth_def np_random_randn_def sigma64_real rho64_real dt64_real
    by (simp add: b')
qed

subsection \<open>The effects of choose_action\<close>

text \<open>
  C7 as stated (\<^verbatim>\<open>choose_action\<close> leaves the agent as it found it) does not hold:
  the call appends to \<^verbatim>\<open>action_memory\<close>.
\<close>

theorem choose_action_changes_agent:
  "action_memory (fst (snd (choose_action demo_approximators ruin_seed fresh_agent
      \<lparr>np_pos = 0, torch_pos = 0\<rparr> 1 0))) \<noteq> action_memory fresh_agent"
  by (simp add: demo_choose_action fresh_agent_def)

text \<open>
  C7, amended: \<^verbatim>\<open>choose_action\<close> leaves the parameters of both networks, the reward,
  value, mean and sd buffers and the score as they were, and overwrites \<^verbatim>\<open>self.mean\<close>
  and \<^verbatim>\<open>self.sd\<close> with the output of the policy network. When that scale is positive it
  returns the sampled action, appends its log-probability to \<^verbatim>\<open>action_memory\<close>, sets
  \<^verbatim>\<open>self.reward\<close> to \<open>lam\<close> times the entropy and takes one draw from torch's generator.
  When the scale is not positive it raises \<^verbatim>\<open>ValueError\<close>, and \<^verbatim>\<open>action_memory\<close>,
  \<^verbatim>\<open>self.reward\<close> and the generator are as they were.
\<close>

theorem choose_action_frame:
  "(case choose_action M S a g w t of
      (res, a', g') \<Rightarrow>
        reward_memory a' = reward_memory a \<and>
        value_memory a' = value_memory a \<and>
        mean_memory a' = mean_memory a \<and>
        sd_memory a' = sd_memory a \<and>
        value_params a' = value_params a \<and>
        policy_params a' = policy_params a \<and>
        score a' = score a \<and>
        (mean a', sd a') = PolicyNetwork_forward M (policy_params a) [w, T - t] \<and>
        (if 0 < item (sd a')
         then res = Inr (Normal_sample (mean a') (sd a') (torch_seq S (torch_pos g))) \<and>
              action_memory a' = action_memory a @
                [Normal_log_prob (mean a') (sd a')
                   (Normal_sample (mean a') (sd a') (torch_seq S (torch_pos g)))] \<and>
              reward a' = lam * item (Normal_entropy (mean a') (sd a')) \<and>
              g' = g\<lparr>torch_pos := Suc (torch_pos g)\<rparr>
         else res = Inl ValueError \<and>
              action_memory a' = action_memory a \<and>
              reward a' = reward a \<and>
              g' = g))"
  by (simp add: choose_action_def torch_randn_def Let_def split: prod.splits)

end
